theory Spec2Isabelle
  imports Complex_Main "HOL-Library.Monad_Syntax"
begin

section \<open>Numbers, planar vectors and angles\<close>

text \<open>
  Python floats and numpy \<open>float64\<close> values are modelled as real numbers: rounding is
  not represented, and the literals of the source (\<open>0.01\<close>, \<open>3.6\<close>, \<open>200.0\<close>, ...)
  stand for the rationals they are written as. A map coordinate, a heading vector and a
  numpy array of shape \<open>(2,)\<close> are pairs of reals.
\<close>

type_synonym vec = "real \<times> real"

definition vadd :: "vec \<Rightarrow> vec \<Rightarrow> vec" where
  "vadd a b = (fst a + fst b, snd a + snd b)"

definition vsub :: "vec \<Rightarrow> vec \<Rightarrow> vec" where
  "vsub a b = (fst a - fst b, snd a - snd b)"

definition smul :: "real \<Rightarrow> vec \<Rightarrow> vec" where
  "smul k a = (k * fst a, k * snd a)"

definition np_dot :: "vec \<Rightarrow> vec \<Rightarrow> real" where
  "np_dot a b = fst a * fst b + snd a * snd b"

definition linalg_norm :: "vec \<Rightarrow> real" where
  "linalg_norm a = sqrt (fst a * fst a + snd a * snd a)"

definition np_clip :: "real \<Rightarrow> real \<Rightarrow> real \<Rightarrow> real" where
  "np_clip x lo hi = min (max x lo) hi"

text \<open>
  A numpy division does not raise on a zero divisor: it yields \<open>inf\<close> or \<open>nan\<close> and the
  computation goes on with it. The reals have no such values, so a division whose divisor
  the source does not guard returns \<open>None\<close> on zero, and \<open>None\<close> propagates: it stands
  for a call that left the model's domain, not for an exception.
\<close>

definition np_div :: "real \<Rightarrow> real \<Rightarrow> real option" where
  "np_div a b = (if b = 0 then None else Some (a / b))"

text \<open>\<open>v /= np.linalg.norm(v)\<close>\<close>

definition normalized :: "vec \<Rightarrow> vec option" where
  "normalized v =
     (if linalg_norm v = 0 then None
      else Some (fst v / linalg_norm v, snd v / linalg_norm v))"

text \<open>\<open>math.degrees\<close>, \<open>math.radians\<close>, \<open>math.atan2\<close> and the float operator \<open>%\<close>
  (the result has the sign of the divisor).\<close>

definition degrees :: "real \<Rightarrow> real" where
  "degrees r = r * 180 / pi"

definition radians :: "real \<Rightarrow> real" where
  "radians d = d * pi / 180"

definition atan2 :: "real \<Rightarrow> real \<Rightarrow> real" where
  "atan2 y x =
     (if 0 < x then arctan (y / x)
      else if x < 0 then (if 0 \<le> y then arctan (y / x) + pi else arctan (y / x) - pi)
      else if 0 < y then pi / 2
      else if y < 0 then - (pi / 2)
      else 0)"

definition py_mod :: "real \<Rightarrow> real \<Rightarrow> real" where
  "py_mod x m = x - m * of_int \<lfloor>x / m\<rfloor>"

text \<open>\<open>dict.get(key, default)\<close>: \<open>None\<close> is the missing key.\<close>

definition dict_get :: "'a option \<Rightarrow> 'a \<Rightarrow> 'a" where
  "dict_get v d = (case v of None \<Rightarrow> d | Some x \<Rightarrow> x)"

section \<open>Ground projection (g\_projection.py)\<close>

subsection \<open>Guideline index: SVGParser.get\_nearest\_heading\<close>








subsection \<open>GProjection: construction\<close>














subsection \<open>GProjection: parallax\<close>



section \<open>Track kinematic smoother (kinematics.py, TrackSmoother)\<close>

text \<open>
  The configuration dictionary, with \<open>None\<close> for a missing key; the nested dictionary
  \<open>heading_ema\<close> is flattened into its three keys.
\<close>

record config =
  alpha_min :: "real option"
  alpha_max :: "real option"
  speed_ref :: "real option"
  heading_sat_coords_jitter_frames :: "nat option"
  heading_sat_coords_jitter_radius :: "real option"
  speed_ema_alpha :: "real option"
  heading_min_speed_for_update :: "real option"
  heading_max_jump :: "real option"

text \<open>
  The attributes of a \<open>TrackSmoother\<close>. A \<open>deque(maxlen=n)\<close> is a list that
  \<open>deque_append\<close> keeps to its last \<open>n\<close> elements; \<open>jitter_maxlen\<close> is the bound
  of \<open>jitter_hist\<close>, the bound of \<open>pos_history\<close> is the constant \<open>reg_win = 8\<close>.
\<close>

record track_smoother =
  cfg :: config
  speed_state :: "real option"
  heading_vec_state :: "vec option"
  velocity_vec_state :: "vec option"
  h_alpha_min :: real
  h_alpha_max :: real
  h_speed_ref :: real
  pos_history :: "vec list"
  jitter_maxlen :: nat
  jitter_hist :: "vec list"
  cosine_reject_counter :: int
  max_physics_speed :: real

definition deque_append :: "nat \<Rightarrow> 'a list \<Rightarrow> 'a \<Rightarrow> 'a list" where
  "deque_append maxlen xs x = (let ys = xs @ [x] in drop (length ys - maxlen) ys)"

definition reg_win :: nat where
  "reg_win = 8"

definition TrackSmoother_init :: "config \<Rightarrow> track_smoother" where
  "TrackSmoother_init config =
     \<lparr>cfg = config,
      speed_state = None,
      heading_vec_state = None,
      velocity_vec_state = None,
      h_alpha_min = dict_get (alpha_min config) 0.05,
      h_alpha_max = dict_get (alpha_max config) 0.6,
      h_speed_ref = dict_get (speed_ref config) 5,
      pos_history = [],
      jitter_maxlen = dict_get (heading_sat_coords_jitter_frames config) 8,
      jitter_hist = [],
      cosine_reject_counter = 0,
      max_physics_speed = 200\<rparr>"

text \<open>The dictionary that \<open>update\<close> returns.\<close>

record result =
  speed_kmh :: "real option"
  heading :: "real option"
  default_heading :: bool

subsection \<open>Helpers\<close>

definition vec_to_deg :: "vec \<Rightarrow> real" where
  "vec_to_deg v = py_mod (degrees (atan2 (snd v) (fst v)) + 360) 360"

text \<open>
  The shortest signed angular difference \<open>(x + 180) % 360 - 180\<close>, which the source
  writes out in \<open>_smooth_heading\<close> and in \<open>_apply_snapping\<close>.
\<close>

definition wrap180 :: "real \<Rightarrow> real" where
  "wrap180 x = py_mod (x + 180) 360 - 180"

text \<open>\<open>np.max(pts, 0)\<close> and \<open>np.min(pts, 0)\<close> of a non-empty array of points.\<close>

definition np_max0 :: "vec list \<Rightarrow> vec" where
  "np_max0 pts = (fold max (map fst (tl pts)) (fst (hd pts)),
                  fold max (map snd (tl pts)) (snd (hd pts)))"

definition np_min0 :: "vec list \<Rightarrow> vec" where
  "np_min0 pts = (fold min (map fst (tl pts)) (fst (hd pts)),
                  fold min (map snd (tl pts)) (snd (hd pts)))"

definition check_jitter :: "track_smoother \<Rightarrow> real \<Rightarrow> bool" where
  "check_jitter self ppm =
     (if length (jitter_hist self) < 2 then False
      else let rad_m = dict_get (heading_sat_coords_jitter_radius (cfg self)) 0.6;
               rad_px = rad_m * ppm;
               pts = jitter_hist self
           in linalg_norm (vsub (np_max0 pts) (np_min0 pts)) < rad_px)"

definition smooth_speed :: "track_smoother \<Rightarrow> real \<Rightarrow> real" where
  "smooth_speed self raw =
     (let alpha = dict_get (speed_ema_alpha (cfg self)) 0.4
      in case speed_state self of
           None \<Rightarrow> raw
         | Some s \<Rightarrow> alpha * raw + (1 - alpha) * s)"

text \<open>
  \<open>cv2.fitLine\<close> is a library routine: the model takes it as the parameter
  \<open>fitLine\<close>, from the window of points to the direction \<open>(vx, vy)\<close> of the fitted line.
\<close>

definition compute_regression_heading :: "(vec list \<Rightarrow> vec) \<Rightarrow> track_smoother \<Rightarrow> real option" where
  "compute_regression_heading fitLine self =
     (if length (pos_history self) < 3 then None
      else let pts = pos_history self
           in if linalg_norm (vsub (last pts) (hd pts)) < 2 then None
              else let v = fitLine pts;
                       disp = vsub (last pts) (hd pts);
                       v = (if np_dot disp v < 0 then (- fst v, - snd v) else v)
                   in Some (vec_to_deg v))"

definition smooth_heading :: "track_smoother \<Rightarrow> real \<Rightarrow> real \<Rightarrow> (real \<times> track_smoother) option" where
  "smooth_heading self raw_deg speed =
     (let rad = radians raw_deg;
          curr_vec = (cos rad, sin rad);
          vel_alpha = 0.25
      in do {
        vel \<leftarrow> (case velocity_vec_state self of
                  None \<Rightarrow> Some curr_vec
                | Some v \<Rightarrow> normalized (vadd (smul vel_alpha curr_vec) (smul (1 - vel_alpha) v)));
        let self = self\<lparr>velocity_vec_state := Some vel\<rparr>;
        let curr_vec = vel;
        (case heading_vec_state self of
           None \<Rightarrow> Some (vec_to_deg curr_vec, self\<lparr>heading_vec_state := Some curr_vec\<rparr>)
         | Some hv \<Rightarrow> do {
             let speed_ms = speed / 3.6;
             q \<leftarrow> np_div speed_ms (h_speed_ref self);
             let ratio = min 1 q;
             let alpha = h_alpha_min self + (h_alpha_max self - h_alpha_min self) * ratio;
             new_vec \<leftarrow> normalized (vadd (smul alpha curr_vec) (smul (1 - alpha) hv));
             let target_deg = vec_to_deg new_vec;
             let prev_deg = vec_to_deg hv;
             let delta = wrap180 (target_deg - prev_deg);
             let max_jump = dict_get (heading_max_jump (cfg self)) 5;
             let target_deg =
               (if \<bar>delta\<bar> > max_jump
                then py_mod (prev_deg + np_clip delta (- max_jump) max_jump + 360) 360
                else target_deg);
             let r_final = radians target_deg;
             Some (target_deg, self\<lparr>heading_vec_state := Some (cos r_final, sin r_final)\<rparr>)
           })
      })"

definition apply_snapping :: "real \<Rightarrow> real \<Rightarrow> real" where
  "apply_snapping current_heading svg_heading =
     (let diff = wrap180 (current_heading - svg_heading)
      in if \<bar>diff\<bar> < 15 then py_mod (current_heading - diff * 0.3 + 360) 360
         else current_heading)"

subsection \<open>update\<close>

text \<open>\<open>self.speed_state if self.speed_state else 0.0\<close>: \<open>None\<close> and \<open>0.0\<close> are falsy.\<close>

definition truthy_or_zero :: "real option \<Rightarrow> real option" where
  "truthy_or_zero s = (case s of None \<Rightarrow> Some 0 | Some v \<Rightarrow> if v \<noteq> 0 then Some v else Some 0)"

text \<open>Step 1, the physics speed gate: whether the call is rejected.\<close>

definition physics_gate :: "track_smoother \<Rightarrow> vec \<Rightarrow> real \<Rightarrow> real \<Rightarrow> bool option" where
  "physics_gate self current_sat_pos dt ppm =
     (if dt > 0 \<and> length (pos_history self) > 0 then do {
        let prev_pt = last (pos_history self);
        let dist_px = linalg_norm (vsub current_sat_pos prev_pt);
        dist_m \<leftarrow> np_div dist_px ppm;
        let inst_speed = (dist_m / dt) * 3.6;
        Some (inst_speed > max_physics_speed self)
      } else Some False)"

text \<open>The two \<open>append\<close> calls of an accepted call.\<close>

definition push_position :: "track_smoother \<Rightarrow> vec \<Rightarrow> track_smoother" where
  "push_position self current_sat_pos =
     self\<lparr>pos_history := deque_append reg_win (pos_history self) current_sat_pos,
          jitter_hist := deque_append (jitter_maxlen self) (jitter_hist self) current_sat_pos\<rparr>"

text \<open>The raw speed and raw heading of an accepted call, after the position was pushed.\<close>

definition raw_measure :: "(vec list \<Rightarrow> vec) \<Rightarrow> track_smoother \<Rightarrow> vec \<Rightarrow> real \<Rightarrow> real
    \<Rightarrow> (real \<times> real option) option" where
  "raw_measure fitLine self curr_pt dt ppm =
     (if dt > 0 \<and> length (pos_history self) \<ge> 2 then do {
        let prev_pt = pos_history self ! (length (pos_history self) - 2);
        let dist_px = linalg_norm (vsub curr_pt prev_pt);
        dist_m \<leftarrow> np_div dist_px ppm;
        let raw_speed_kmh = (dist_m / dt) * 3.6;
        let reg_heading = compute_regression_heading fitLine self;
        Some (raw_speed_kmh,
              (case reg_heading of
                 Some r \<Rightarrow> Some r
               | None \<Rightarrow>
                   if dist_px > 0.5
                   then Some (py_mod (degrees (atan2 (snd curr_pt - snd prev_pt)
                                                      (fst curr_pt - fst prev_pt)) + 360) 360)
                   else None))
      } else Some (0, None))"

text \<open>Step 2 of the source, the heading decision, on the state with the smoothed speed stored.\<close>

definition heading_decision :: "track_smoother \<Rightarrow> real \<Rightarrow> real option \<Rightarrow> bool \<Rightarrow> real option
    \<Rightarrow> ((real option \<times> bool) \<times> track_smoother) option" where
  "heading_decision self raw_speed_kmh raw_heading_deg is_jittering svg_heading =
     (let min_speed = dict_get (heading_min_speed_for_update (cfg self)) 0.1
      in if raw_speed_kmh > min_speed \<and> \<not> is_jittering \<and> raw_heading_deg \<noteq> None then do {
           (final_heading, self) \<leftarrow> smooth_heading self (the raw_heading_deg) raw_speed_kmh;
           let final_heading =
             (case svg_heading of
                Some g \<Rightarrow> apply_snapping final_heading g
              | None \<Rightarrow> final_heading);
           Some ((Some final_heading, False), self)
         }
         else (case heading_vec_state self of
                 Some hv \<Rightarrow> Some ((Some (vec_to_deg hv), False), self)
               | None \<Rightarrow>
                   (case svg_heading of
                      Some g \<Rightarrow> Some ((Some g, True), self)
                    | None \<Rightarrow> Some ((None, False), self))))"

definition update :: "(vec list \<Rightarrow> vec) \<Rightarrow> track_smoother \<Rightarrow> vec \<Rightarrow> real \<Rightarrow> real \<Rightarrow> real option
    \<Rightarrow> (result \<times> track_smoother) option" where
  "update fitLine self current_sat_pos dt ppm svg_heading = do {
     rejected \<leftarrow> physics_gate self current_sat_pos dt ppm;
     if rejected
     then Some (\<lparr>speed_kmh = truthy_or_zero (speed_state self),
                  heading = map_option vec_to_deg (heading_vec_state self),
                  default_heading = False\<rparr>, self)
     else do {
       let self = push_position self current_sat_pos;
       let is_jittering = check_jitter self ppm;
       (raw_speed_kmh, raw_heading_deg) \<leftarrow> raw_measure fitLine self current_sat_pos dt ppm;
       let self = self\<lparr>speed_state := Some (smooth_speed self raw_speed_kmh)\<rparr>;
       ((final_heading, is_default), self) \<leftarrow>
          heading_decision self raw_speed_kmh raw_heading_deg is_jittering svg_heading;
       Some (\<lparr>speed_kmh = truthy_or_zero (speed_state self),
              heading = final_heading,
              default_heading = is_default\<rparr>, self)
     }
   }"

text \<open>
  A sequence of \<open>update\<close> calls on one smoother, each observation being
  \<open>(current_sat_pos, dt, px_per_m, svg_heading)\<close>: the records returned, in order, and
  the final state.
\<close>

type_synonym observation = "vec \<times> real \<times> real \<times> real option"

fun run_updates :: "(vec list \<Rightarrow> vec) \<Rightarrow> track_smoother \<Rightarrow> observation list
    \<Rightarrow> (result list \<times> track_smoother) option" where
  "run_updates fitLine self [] = Some ([], self)"
| "run_updates fitLine self ((pos, dt, ppm, svg) # obs) =
     (case update fitLine self pos dt ppm svg of
        None \<Rightarrow> None
      | Some (r, self') \<Rightarrow>
          (case run_updates fitLine self' obs of
             None \<Rightarrow> None
           | Some (rs, self'') \<Rightarrow> Some (r # rs, self'')))"

text \<open>
  The jitter test of a call: \<open>_check_jitter\<close> on the window with the new position pushed,
  as \<open>update\<close> evaluates it. A run of calls is jittering when each of its calls detects
  jitter on the state the calls before it left; a call without a result has no state after
  it and puts no condition on the calls that follow.
\<close>

definition jitter_detected :: "track_smoother \<Rightarrow> vec \<Rightarrow> real \<Rightarrow> bool" where
  "jitter_detected self current_sat_pos ppm = check_jitter (push_position self current_sat_pos) ppm"

fun jittering_run :: "(vec list \<Rightarrow> vec) \<Rightarrow> track_smoother \<Rightarrow> observation list \<Rightarrow> bool" where
  "jittering_run fitLine self [] = True"
| "jittering_run fitLine self ((pos, dt, ppm, svg) # obs) =
     (jitter_detected self pos ppm \<and>
      (case update fitLine self pos dt ppm svg of
         None \<Rightarrow> True
       | Some (r, self') \<Rightarrow> jittering_run fitLine self' obs))"

text \<open>
  The two direction vectors of a smoother are unit vectors whenever they are set: the
  source stores them normalised or as \<open>(cos r, sin r)\<close>.
\<close>

definition unit_vectors :: "track_smoother \<Rightarrow> bool" where
  "unit_vectors self =
     ((case velocity_vec_state self of None \<Rightarrow> True | Some v \<Rightarrow> linalg_norm v = 1) \<and>
      (case heading_vec_state self of None \<Rightarrow> True | Some h \<Rightarrow> linalg_norm h = 1))"


section \<open>Properties: modular arithmetic on angles\<close>

lemma py_mod_range:
  assumes "0 < m"
  shows "0 \<le> py_mod x m" and "py_mod x m < m"
proof -
  have "of_int \<lfloor>x / m\<rfloor> \<le> x / m" and "x / m < of_int \<lfloor>x / m\<rfloor> + 1"
    by linarith+
  then have "of_int \<lfloor>x / m\<rfloor> * m \<le> x" and "x < (of_int \<lfloor>x / m\<rfloor> + 1) * m"
    using assms by (simp_all only: pos_le_divide_eq pos_divide_less_eq)
  then show "0 \<le> py_mod x m" and "py_mod x m < m"
    by (simp_all add: py_mod_def algebra_simps)
qed

lemma py_mod_unique:
  assumes "0 < m" and "0 \<le> x - m * of_int k" and "x - m * of_int k < m"
  shows "py_mod x m = x - m * of_int k"
proof -
  have "of_int k \<le> x / m" and "x / m < of_int k + 1"
    using assms by (simp_all add: field_simps)
  then have "\<lfloor>x / m\<rfloor> = k"
    by linarith
  then show ?thesis
    by (simp add: py_mod_def)
qed


lemma py_mod_shift: 
  assumes "m \<noteq> 0" shows "py_mod (x + m * of_int k) m = py_mod x m"
proof -
  have "(x + m * of_int k) / m = x / m + of_int k"
    using assms by (simp add: field_simps)
  then show ?thesis
    by (simp add: py_mod_def algebra_simps)
qed

lemma py_mod_plus_360: "py_mod (x + 360) 360 = py_mod x 360"
  using py_mod_shift [of 360 x 1] by simp

lemma py_mod_ex: "\<exists>k. py_mod x m = x - m * of_int k"
  unfolding py_mod_def by blast


lemma wrap180_unique:
  assumes "- 180 \<le> x - 360 * of_int k" and "x - 360 * of_int k < 180"
  shows "wrap180 x = x - 360 * of_int k"
  using py_mod_unique [of 360 "x + 180" k] assms by (simp add: wrap180_def)

lemma wrap180_id: "- 180 \<le> x \<Longrightarrow> x < 180 \<Longrightarrow> wrap180 x = x"
  using wrap180_unique [of x 0] by simp

lemma wrap180_ex: "\<exists>k. wrap180 x = x - 360 * of_int k"
  using py_mod_ex [of "x + 180" 360] by (auto simp: wrap180_def)

lemma wrap180_shift: "wrap180 (x + 360 * of_int k) = wrap180 x"
  using py_mod_shift [of 360 "x + 180" k] by (simp add: wrap180_def algebra_simps)

lemma wrap180_py_mod_diff: "wrap180 (py_mod y 360 - z) = wrap180 (y - z)"
proof -
  obtain k where "py_mod y 360 = y - 360 * of_int k"
    using py_mod_ex by blast
  then have "py_mod y 360 - z = (y - z) + 360 * of_int (- k)"
    by simp
  then show ?thesis
    using wrap180_shift [of "y - z" "- k"] by (simp only:)
qed

section \<open>Parallax round trip\<close>







section \<open>Guideline snapping\<close>

lemma snap_remaining_difference:
  assumes "\<bar>wrap180 (c - g)\<bar> < 15"
  shows "wrap180 (apply_snapping c g - g) = 0.7 * wrap180 (c - g)"
proof -
  obtain k where k: "wrap180 (c - g) = c - g - 360 * of_int k"
    using wrap180_ex by blast
  have "apply_snapping c g = py_mod (c - 0.3 * wrap180 (c - g)) 360"
    using assms py_mod_plus_360 [of "c - 0.3 * wrap180 (c - g)"]
    by (simp add: apply_snapping_def Let_def algebra_simps)
  then have "wrap180 (apply_snapping c g - g) = wrap180 (c - 0.3 * wrap180 (c - g) - g)"
    by (simp only: wrap180_py_mod_diff)
  also have "c - 0.3 * wrap180 (c - g) - g = 0.7 * wrap180 (c - g) + 360 * of_int k"
    using k by linarith
  also have "wrap180 (0.7 * wrap180 (c - g) + 360 * of_int k) = wrap180 (0.7 * wrap180 (c - g))"
    by (rule wrap180_shift)
  also have "\<dots> = 0.7 * wrap180 (c - g)"
    using assms by (intro wrap180_id) auto
  finally show ?thesis .
qed

text \<open>
  C6. When the shortest signed angular difference between the heading and the guideline
  heading has magnitude below 15 degrees, \<open>_apply_snapping\<close> returns the heading moved
  by 30 percent of that difference towards the guideline, normalised to \<open>[0, 360)\<close>:
  the difference that remains is 70 percent of the one before. Otherwise it returns the
  heading unchanged.
\<close>

theorem apply_snapping_spec:
  "(\<bar>wrap180 (c - g)\<bar> < 15 \<longrightarrow>
      apply_snapping c g = py_mod (c - 0.3 * wrap180 (c - g)) 360 \<and>
      0 \<le> apply_snapping c g \<and> apply_snapping c g < 360 \<and>
      wrap180 (apply_snapping c g - g) = 0.7 * wrap180 (c - g)) \<and>
   (\<not> \<bar>wrap180 (c - g)\<bar> < 15 \<longrightarrow> apply_snapping c g = c)"
proof (intro conjI impI)
  assume near: "\<bar>wrap180 (c - g)\<bar> < 15"
  show eq: "apply_snapping c g = py_mod (c - 0.3 * wrap180 (c - g)) 360"
    using near py_mod_plus_360 [of "c - 0.3 * wrap180 (c - g)"]
    by (simp add: apply_snapping_def Let_def algebra_simps)
  show "0 \<le> apply_snapping c g" and "apply_snapping c g < 360"
    unfolding eq by (rule py_mod_range; simp)+
  show "wrap180 (apply_snapping c g - g) = 0.7 * wrap180 (c - g)"
    using near by (rule snap_remaining_difference)
next
  assume "\<not> \<bar>wrap180 (c - g)\<bar> < 15"
  then show "apply_snapping c g = c"
    by (simp add: apply_snapping_def Let_def)
qed

theorem apply_snapping_spec_witness:
  "apply_snapping 10 0 = 7 \<and> apply_snapping 100 0 = 100 \<and> apply_snapping 350 0 = 353"
proof -
  have a: "wrap180 (10 - 0) = 10" and b: "wrap180 (100 - 0) = 100" and c: "wrap180 (350 - 0) = - 10"
    by (simp_all add: wrap180_def py_mod_def)
  have "py_mod (10 - 0.3 * 10) 360 = 7" and "py_mod (350 - 0.3 * (- 10)) 360 = 353"
    by (simp_all add: py_mod_def)
  then show ?thesis
    using apply_snapping_spec [of 10 0] apply_snapping_spec [of 100 0]
      apply_snapping_spec [of 350 0]
    unfolding a b c by simp
qed

section \<open>Guideline index: nearest heading\<close>








section \<open>Construction of the ground projection\<close>






section \<open>The smoother: update calls\<close>

lemma deque_append_singleton: "deque_append n [] x = (if n = 0 then [] else [x])"
  by (simp add: deque_append_def)

lemma length_deque_append_Nil: "length (deque_append n [] x) < 2"
  by (simp add: deque_append_singleton)

lemma physics_gate_init: "physics_gate (TrackSmoother_init c) pos dt ppm = Some False"
  by (simp add: physics_gate_def TrackSmoother_init_def)

lemma update_on_fresh_smoother:
  "update fitLine (TrackSmoother_init c) pos dt ppm svg =
     Some (\<lparr>speed_kmh = Some 0, heading = svg, default_heading = (svg \<noteq> None)\<rparr>,
           (push_position (TrackSmoother_init c) pos)\<lparr>speed_state := Some 0\<rparr>)"
proof -
  define s1 where "s1 = push_position (TrackSmoother_init c) pos"
  have jit: "check_jitter s1 ppm = False"
    using length_deque_append_Nil [of "jitter_maxlen (TrackSmoother_init c)" pos]
    by (simp add: check_jitter_def s1_def push_position_def TrackSmoother_init_def)
  have raw: "raw_measure fitLine s1 pos dt ppm = Some (0, None)"
    by (simp add: raw_measure_def s1_def push_position_def TrackSmoother_init_def
        deque_append_singleton reg_win_def)
  have sp: "smooth_speed s1 0 = 0"
    by (simp add: smooth_speed_def s1_def push_position_def TrackSmoother_init_def)
  define s2 where "s2 = s1\<lparr>speed_state := Some 0\<rparr>"
  have hd: "heading_decision s2 0 None False svg = Some ((svg, svg \<noteq> None), s2)"
    by (cases svg)
      (simp_all add: heading_decision_def s2_def s1_def push_position_def TrackSmoother_init_def)
  have s2_speed: "speed_state s2 = Some 0"
    by (simp add: s2_def)
  have "update fitLine (TrackSmoother_init c) pos dt ppm svg =
      Some (\<lparr>speed_kmh = Some 0, heading = svg, default_heading = (svg \<noteq> None)\<rparr>, s2)"
    unfolding update_def physics_gate_init
    using jit raw sp hd s2_speed
    by (simp add: Let_def s1_def [symmetric] s2_def [symmetric] truthy_or_zero_def)
  then show ?thesis
    by (simp add: s2_def s1_def)
qed

text \<open>
  C9. On the first \<open>update\<close> call of a freshly constructed smoother, whatever the
  configuration, position, time step, scale and fitting routine, the physics gate does
  not reject, the returned speed is \<open>0.0\<close>, and the returned heading is the supplied
  guideline heading with \<open>default_heading = True\<close> when there is one, and null with
  \<open>default_heading = False\<close> when there is none.
\<close>

theorem first_update:
  "physics_gate (TrackSmoother_init c) pos dt ppm = Some False \<and>
   (\<exists>self'. update fitLine (TrackSmoother_init c) pos dt ppm svg =
      Some (\<lparr>speed_kmh = Some 0, heading = svg, default_heading = (svg \<noteq> None)\<rparr>, self'))"
proof
  show "physics_gate (TrackSmoother_init c) pos dt ppm = Some False"
    by (rule physics_gate_init)
  show "\<exists>self'. update fitLine (TrackSmoother_init c) pos dt ppm svg =
      Some (\<lparr>speed_kmh = Some 0, heading = svg, default_heading = (svg \<noteq> None)\<rparr>, self')"
    using update_on_fresh_smoother by blast
qed

theorem first_update_witness:
  "update (\<lambda>pts. (1, 0)) (TrackSmoother_init
      \<lparr>alpha_min = None, alpha_max = None, speed_ref = None,
       heading_sat_coords_jitter_frames = None, heading_sat_coords_jitter_radius = None,
       speed_ema_alpha = None, heading_min_speed_for_update = None, heading_max_jump = None\<rparr>)
      (3, 4) (1 / 25) 12 (Some 90) \<noteq> None"
  using first_update [of
      "\<lparr>alpha_min = None, alpha_max = None, speed_ref = None,
       heading_sat_coords_jitter_frames = None, heading_sat_coords_jitter_radius = None,
       speed_ema_alpha = None, heading_min_speed_for_update = None, heading_max_jump = None\<rparr>"
      "(3, 4)" "1 / 25" 12 "\<lambda>pts. (1, 0)" "Some 90"]
  by auto

subsection \<open>The two paths of update\<close>

lemma update_rejected:
  assumes "physics_gate self pos dt ppm = Some True"
  shows "update fitLine self pos dt ppm svg =
     Some (\<lparr>speed_kmh = truthy_or_zero (speed_state self),
            heading = map_option vec_to_deg (heading_vec_state self),
            default_heading = False\<rparr>, self)"
  using assms by (simp add: update_def)

lemma update_accepted:
  assumes "physics_gate self pos dt ppm = Some False"
    and "update fitLine self pos dt ppm svg = Some (r, self')"
  shows "\<exists>raw_speed raw_heading final_heading is_default.
     raw_measure fitLine (push_position self pos) pos dt ppm = Some (raw_speed, raw_heading) \<and>
     heading_decision
       ((push_position self pos)\<lparr>speed_state := Some (smooth_speed (push_position self pos) raw_speed)\<rparr>)
       raw_speed raw_heading (check_jitter (push_position self pos) ppm) svg =
       Some ((final_heading, is_default), self') \<and>
     r = \<lparr>speed_kmh = truthy_or_zero (speed_state self'), heading = final_heading,
          default_heading = is_default\<rparr>"
  using assms
  by (auto simp: update_def Let_def split: Option.bind_splits prod.splits)

lemma physics_gate_cases:
  assumes "update fitLine self pos dt ppm svg = Some (r, self')"
  shows "physics_gate self pos dt ppm = Some True \<or> physics_gate self pos dt ppm = Some False"
  using assms by (cases "physics_gate self pos dt ppm") (auto simp: update_def)

subsection \<open>What the heading steps leave alone\<close>

lemma smooth_heading_frame:
  assumes "smooth_heading self raw_deg speed = Some (deg, self')"
  shows "\<exists>v h. self' = self\<lparr>velocity_vec_state := v, heading_vec_state := h\<rparr>"
proof -
  from assms show ?thesis
    unfolding smooth_heading_def Let_def
    by (auto split: Option.bind_splits option.splits intro: exI)
qed

lemma heading_decision_frame:
  assumes "heading_decision self raw_speed raw_heading is_jittering svg = Some (out, self')"
  shows "\<exists>v h. self' = self\<lparr>velocity_vec_state := v, heading_vec_state := h\<rparr>"
proof (cases "raw_speed > dict_get (heading_min_speed_for_update (cfg self)) 0.1 \<and> \<not> is_jittering \<and> raw_heading \<noteq> None")
  case True
  then obtain deg where "smooth_heading self (the raw_heading) raw_speed = Some (deg, self')"
    using assms by (auto simp: heading_decision_def Let_def split: Option.bind_splits prod.splits)
  then show ?thesis
    by (rule smooth_heading_frame)
next
  case False
  then have "self' = self"
    using assms by (auto simp: heading_decision_def Let_def split: option.splits)
  then have "self' = self\<lparr>velocity_vec_state := velocity_vec_state self,
      heading_vec_state := heading_vec_state self\<rparr>"
    by simp
  then show ?thesis
    by blast
qed

lemma update_frame:
  assumes "update fitLine self pos dt ppm svg = Some (r, self')"
  shows "cfg self' = cfg self" and "max_physics_speed self' = max_physics_speed self"
    and "jitter_maxlen self' = jitter_maxlen self"
    and "h_alpha_min self' = h_alpha_min self" and "h_alpha_max self' = h_alpha_max self"
    and "h_speed_ref self' = h_speed_ref self"
    and "cosine_reject_counter self' = cosine_reject_counter self"
proof -
  have "cfg self' = cfg self \<and> max_physics_speed self' = max_physics_speed self \<and>
    jitter_maxlen self' = jitter_maxlen self \<and>
    h_alpha_min self' = h_alpha_min self \<and> h_alpha_max self' = h_alpha_max self \<and>
    h_speed_ref self' = h_speed_ref self \<and>
    cosine_reject_counter self' = cosine_reject_counter self"
    using physics_gate_cases [OF assms]
  proof
    assume "physics_gate self pos dt ppm = Some True"
    from update_rejected [OF this, of fitLine svg] assms show ?thesis
      by simp
  next
    assume "physics_gate self pos dt ppm = Some False"
    from update_accepted [OF this assms] obtain raw_speed raw_heading out where
      "heading_decision
        ((push_position self pos)\<lparr>speed_state := Some (smooth_speed (push_position self pos) raw_speed)\<rparr>)
        raw_speed raw_heading (check_jitter (push_position self pos) ppm) svg = Some (out, self')"
      by blast
    from heading_decision_frame [OF this] show ?thesis
      by (auto simp: push_position_def)
  qed
  then show "cfg self' = cfg self" and "max_physics_speed self' = max_physics_speed self"
    and "jitter_maxlen self' = jitter_maxlen self"
    and "h_alpha_min self' = h_alpha_min self" and "h_alpha_max self' = h_alpha_max self"
    and "h_speed_ref self' = h_speed_ref self"
    and "cosine_reject_counter self' = cosine_reject_counter self"
    by simp_all
qed

lemma run_updates_frame:
  assumes "run_updates fitLine self obs = Some (rs, self')"
  shows "cfg self' = cfg self \<and> max_physics_speed self' = max_physics_speed self"
  using assms
proof (induction obs arbitrary: self rs)
  case Nil
  then show ?case by simp
next
  case (Cons ob obs)
  obtain pos dt ppm svg where ob: "ob = (pos, dt, ppm, svg)"
    by (metis prod.exhaust)
  from Cons.prems obtain r s1 rs1 where
    u: "update fitLine self pos dt ppm svg = Some (r, s1)"
    and rest: "run_updates fitLine s1 obs = Some (rs1, self')"
    by (auto simp: ob split: option.splits prod.splits)
  from Cons.IH [OF rest] update_frame(1,2) [OF u] show ?case
    by simp
qed

lemma run_updates_max_physics_speed:
  assumes "run_updates fitLine (TrackSmoother_init c) obs = Some (rs, self)"
  shows "max_physics_speed self = 200"
  using run_updates_frame [OF assms] by (simp add: TrackSmoother_init_def)

subsection \<open>The physics speed gate\<close>

lemma linalg_norm_axis: "linalg_norm (x, 0) = \<bar>x\<bar>" "linalg_norm (0, y) = \<bar>y\<bar>"
  by (simp_all add: linalg_norm_def)

lemma linalg_norm_nonneg: "0 \<le> linalg_norm v"
  by (simp add: linalg_norm_def)

lemma truthy_or_zero_eq: "truthy_or_zero s = Some (case s of None \<Rightarrow> 0 | Some v \<Rightarrow> v)"
  by (simp add: truthy_or_zero_def split: option.splits)

text \<open>
  C3. On a smoother reached from its construction by any sequence of \<open>update\<close> calls,
  when a prior position exists, \<open>dt > 0\<close>, and the speed that the pixel displacement
  implies through \<open>px_per_m\<close> exceeds 200 km/h, \<open>update\<close> returns the previous smoothed
  speed (\<open>0\<close> if there is none), the previous smoothed heading (null if there is none) and
  \<open>default_heading = False\<close>, and the whole smoother state is the one before the call.
\<close>

theorem physics_gate_rejects:
  assumes "run_updates fitLine (TrackSmoother_init c) obs = Some (rs, self)"
    and "pos_history self \<noteq> []" and "0 < dt" and "ppm \<noteq> 0"
    and "linalg_norm (vsub pos (last (pos_history self))) / ppm / dt * 3.6 > 200"
  shows "update fitLine self pos dt ppm svg =
     Some (\<lparr>speed_kmh = Some (case speed_state self of None \<Rightarrow> 0 | Some v \<Rightarrow> v),
            heading = map_option vec_to_deg (heading_vec_state self),
            default_heading = False\<rparr>, self)"
proof -
  have "max_physics_speed self = 200"
    using assms(1) by (rule run_updates_max_physics_speed)
  then have "physics_gate self pos dt ppm = Some True"
    using assms(2-5) by (simp add: physics_gate_def np_div_def)
  from update_rejected [OF this] show ?thesis
    by (simp add: truthy_or_zero_eq)
qed

theorem physics_gate_rejects_witness:
  "update (\<lambda>pts. (1, 0))
     ((push_position (TrackSmoother_init
        \<lparr>alpha_min = None, alpha_max = None, speed_ref = None,
         heading_sat_coords_jitter_frames = None, heading_sat_coords_jitter_radius = None,
         speed_ema_alpha = None, heading_min_speed_for_update = None, heading_max_jump = None\<rparr>)
        (0, 0))\<lparr>speed_state := Some 0\<rparr>)
     (100, 0) 1 1 None =
   Some (\<lparr>speed_kmh = Some 0, heading = None, default_heading = False\<rparr>,
     (push_position (TrackSmoother_init
        \<lparr>alpha_min = None, alpha_max = None, speed_ref = None,
         heading_sat_coords_jitter_frames = None, heading_sat_coords_jitter_radius = None,
         speed_ema_alpha = None, heading_min_speed_for_update = None, heading_max_jump = None\<rparr>)
        (0, 0))\<lparr>speed_state := Some 0\<rparr>)"
proof -
  let ?c = "\<lparr>alpha_min = None, alpha_max = None, speed_ref = None,
         heading_sat_coords_jitter_frames = None, heading_sat_coords_jitter_radius = None,
         speed_ema_alpha = None, heading_min_speed_for_update = None, heading_max_jump = None\<rparr>"
  let ?f = "\<lambda>pts :: vec list. (1, 0) :: vec"
  let ?s = "(push_position (TrackSmoother_init ?c) (0, 0))\<lparr>speed_state := Some 0\<rparr>"
  have run: "run_updates ?f (TrackSmoother_init ?c) [((0, 0), 1, 1, None)] =
      Some ([\<lparr>speed_kmh = Some 0, heading = None, default_heading = False\<rparr>], ?s)"
    by (simp add: update_on_fresh_smoother)
  have hist: "pos_history ?s = [(0, 0)]"
    by (simp add: push_position_def TrackSmoother_init_def deque_append_singleton reg_win_def)
  have speed: "linalg_norm (vsub (100, 0) (last (pos_history ?s))) / 1 / 1 * 3.6 > 200"
    unfolding hist by (simp add: vsub_def linalg_norm_axis)
  have st: "speed_state ?s = Some 0" "heading_vec_state ?s = None"
    by (simp_all add: push_position_def TrackSmoother_init_def)
  from physics_gate_rejects [OF run _ _ _ speed, of None] hist
  show ?thesis
    unfolding st by simp
qed

subsection \<open>The speed output\<close>








text \<open>The definitions that a concrete \<open>update\<close> call unfolds to when no heading is smoothed.\<close>

lemmas update_eval_defs =
  update_def physics_gate_def push_position_def check_jitter_def raw_measure_def
  smooth_speed_def heading_decision_def compute_regression_heading_def truthy_or_zero_def
  TrackSmoother_init_def deque_append_def reg_win_def dict_get_def np_div_def
  np_max0_def np_min0_def vsub_def linalg_norm_axis Let_def



subsection \<open>The heading output\<close>








text \<open>The further definitions that a concrete call unfolds to when a heading is smoothed.\<close>

lemmas heading_eval_defs =
  smooth_heading_def vec_to_deg_def degrees_def radians_def atan2_def py_mod_def
  wrap180_def apply_snapping_def normalized_def np_clip_def vadd_def smul_def


subsection \<open>Jitter freeze\<close>

lemma update_jitter_freeze:
  assumes hv: "heading_vec_state self = Some hv"
    and jit: "jitter_detected self pos ppm"
    and upd: "update fitLine self pos dt ppm svg = Some (r, self')"
  shows "heading r = Some (vec_to_deg hv) \<and> \<not> default_heading r \<and> heading_vec_state self' = Some hv"
  using physics_gate_cases [OF upd]
proof
  assume "physics_gate self pos dt ppm = Some True"
  from update_rejected [OF this, of fitLine svg] upd hv show ?thesis
    by auto
next
  assume "physics_gate self pos dt ppm = Some False"
  from update_accepted [OF this upd] obtain raw_speed raw_heading final_heading is_default where
    dec: "heading_decision
       ((push_position self pos)\<lparr>speed_state := Some (smooth_speed (push_position self pos) raw_speed)\<rparr>)
       raw_speed raw_heading (check_jitter (push_position self pos) ppm) svg =
       Some ((final_heading, is_default), self')"
    and r: "r = \<lparr>speed_kmh = truthy_or_zero (speed_state self'), heading = final_heading,
          default_heading = is_default\<rparr>"
    by blast
  have "check_jitter (push_position self pos) ppm"
    using jit by (simp add: jitter_detected_def)
  moreover have "heading_vec_state
      ((push_position self pos)\<lparr>speed_state := Some (smooth_speed (push_position self pos) raw_speed)\<rparr>)
      = Some hv"
    using hv by (simp add: push_position_def)
  ultimately have "final_heading = Some (vec_to_deg hv) \<and> \<not> is_default \<and>
      heading_vec_state self' = Some hv"
    using dec by (auto simp: heading_decision_def Let_def)
  then show ?thesis
    using r by simp
qed

text \<open>
  A call that detects jitter has a positive radius in pixels, so \<open>px_per_m\<close> is not zero
  and neither division of the call can fail; with a smoothed heading present no heading is
  smoothed, so the call returns.
\<close>

lemma jitter_detected_scale:
  assumes "jitter_detected self pos ppm"
  shows "ppm \<noteq> 0"
proof
  assume "ppm = 0"
  then have "linalg_norm (vsub (np_max0 (jitter_hist (push_position self pos)))
      (np_min0 (jitter_hist (push_position self pos)))) < 0"
    using assms by (simp add: jitter_detected_def check_jitter_def Let_def split: if_splits)
  then show False
    using linalg_norm_nonneg [of "vsub (np_max0 (jitter_hist (push_position self pos)))
      (np_min0 (jitter_hist (push_position self pos)))"] by simp
qed

lemma update_jitter_returns:
  assumes hv: "heading_vec_state self = Some hv"
    and jit: "jitter_detected self pos ppm"
  shows "\<exists>r self'. update fitLine self pos dt ppm svg = Some (r, self')"
proof -
  have ppm: "ppm \<noteq> 0"
    using jit by (rule jitter_detected_scale)
  have "\<exists>b. physics_gate self pos dt ppm = Some b"
    using ppm by (auto simp: physics_gate_def np_div_def Let_def)
  then obtain b where gate: "physics_gate self pos dt ppm = Some b"
    by blast
  show ?thesis
  proof (cases b)
    case True
    with gate update_rejected [of self pos dt ppm fitLine svg] show ?thesis
      by simp
  next
    case False
    have "\<exists>m. raw_measure fitLine (push_position self pos) pos dt ppm = Some m"
      using ppm by (auto simp: raw_measure_def np_div_def Let_def)
    then obtain raw_speed raw_heading where
      raw: "raw_measure fitLine (push_position self pos) pos dt ppm = Some (raw_speed, raw_heading)"
      by auto
    have "check_jitter (push_position self pos) ppm"
      using jit by (simp add: jitter_detected_def)
    moreover have "heading_vec_state (push_position self pos) = Some hv"
      using hv by (simp add: push_position_def)
    ultimately show ?thesis
      using gate False raw by (simp add: update_def heading_decision_def Let_def)
  qed
qed

text \<open>
  C5. From a smoother that has a smoothed heading vector, any number of consecutive
  \<open>update\<close> calls that each detect jitter (the per-axis extents of the jitter window,
  combined as a vector norm, are below the configured radius in pixels) all return, every
  returned record has the heading of that vector with \<open>default_heading = False\<close>, and the
  stored heading vector is still that vector at the end.
\<close>

theorem jitter_freeze:
  assumes "heading_vec_state self = Some hv"
    and "jittering_run fitLine self obs"
  shows "\<exists>rs self'. run_updates fitLine self obs = Some (rs, self') \<and>
           length rs = length obs \<and>
           heading_vec_state self' = Some hv \<and>
           (\<forall>r \<in> set rs. heading r = Some (vec_to_deg hv) \<and> \<not> default_heading r)"
  using assms
proof (induction obs arbitrary: self)
  case Nil
  then show ?case by simp
next
  case (Cons ob obs)
  obtain pos dt ppm svg where ob: "ob = (pos, dt, ppm, svg)"
    by (metis prod.exhaust)
  have jit: "jitter_detected self pos ppm"
    using Cons.prems(2) by (simp add: ob)
  from update_jitter_returns [OF Cons.prems(1) jit] obtain r s1 where
    u: "update fitLine self pos dt ppm svg = Some (r, s1)"
    by blast
  have jrest: "jittering_run fitLine s1 obs"
    using Cons.prems(2) u by (simp add: ob)
  from update_jitter_freeze [OF Cons.prems(1) jit u]
  have r: "heading r = Some (vec_to_deg hv) \<and> \<not> default_heading r"
    and h1: "heading_vec_state s1 = Some hv"
    by simp_all
  from Cons.IH [OF h1 jrest] obtain rs1 self' where
    rest: "run_updates fitLine s1 obs = Some (rs1, self')"
    and len: "length rs1 = length obs"
    and st: "heading_vec_state self' = Some hv"
    and all: "\<forall>r \<in> set rs1. heading r = Some (vec_to_deg hv) \<and> \<not> default_heading r"
    by blast
  have "run_updates fitLine self (ob # obs) = Some (r # rs1, self')"
    using u rest by (simp add: ob)
  then show ?case
    using len st all r by simp
qed

theorem jitter_freeze_witness:
  "run_updates (\<lambda>pts. (1, 0))
     (TrackSmoother_init
        \<lparr>alpha_min = None, alpha_max = None, speed_ref = None,
         heading_sat_coords_jitter_frames = Some 2, heading_sat_coords_jitter_radius = None,
         speed_ema_alpha = None, heading_min_speed_for_update = None,
         heading_max_jump = None\<rparr>)
     [((0, 0), 1, 1, None), ((10, 0), 1, 1, None)] =
   Some ([\<lparr>speed_kmh = Some 0, heading = None, default_heading = False\<rparr>,
          \<lparr>speed_kmh = Some (72 / 5), heading = Some 0, default_heading = False\<rparr>],
     \<lparr>cfg = \<lparr>alpha_min = None, alpha_max = None, speed_ref = None,
         heading_sat_coords_jitter_frames = Some 2, heading_sat_coords_jitter_radius = None,
         speed_ema_alpha = None, heading_min_speed_for_update = None,
         heading_max_jump = None\<rparr>,
      speed_state = Some (72 / 5), heading_vec_state = Some (1, 0),
      velocity_vec_state = Some (1, 0), h_alpha_min = 0.05, h_alpha_max = 0.6,
      h_speed_ref = 5, pos_history = [(0, 0), (10, 0)], jitter_maxlen = 2,
      jitter_hist = [(0, 0), (10, 0)], cosine_reject_counter = 0,
      max_physics_speed = 200\<rparr>) \<and>
   (\<exists>rs self'.
      run_updates (\<lambda>pts. (1, 0))
        \<lparr>cfg = \<lparr>alpha_min = None, alpha_max = None, speed_ref = None,
           heading_sat_coords_jitter_frames = Some 2, heading_sat_coords_jitter_radius = None,
           speed_ema_alpha = None, heading_min_speed_for_update = None,
           heading_max_jump = None\<rparr>,
         speed_state = Some (72 / 5), heading_vec_state = Some (1, 0),
         velocity_vec_state = Some (1, 0), h_alpha_min = 0.05, h_alpha_max = 0.6,
         h_speed_ref = 5, pos_history = [(0, 0), (10, 0)], jitter_maxlen = 2,
         jitter_hist = [(0, 0), (10, 0)], cosine_reject_counter = 0,
         max_physics_speed = 200\<rparr>
        [((101 / 10, 0), 1, 1, None), ((10, 0), 1, 1, None)] = Some (rs, self') \<and>
      map heading rs = [Some (vec_to_deg (1, 0)), Some (vec_to_deg (1, 0))] \<and>
      map default_heading rs = [False, False] \<and>
      heading_vec_state self' = Some (1, 0))"
proof
  show "run_updates (\<lambda>pts. (1, 0))
     (TrackSmoother_init
        \<lparr>alpha_min = None, alpha_max = None, speed_ref = None,
         heading_sat_coords_jitter_frames = Some 2, heading_sat_coords_jitter_radius = None,
         speed_ema_alpha = None, heading_min_speed_for_update = None,
         heading_max_jump = None\<rparr>)
     [((0, 0), 1, 1, None), ((10, 0), 1, 1, None)] =
   Some ([\<lparr>speed_kmh = Some 0, heading = None, default_heading = False\<rparr>,
          \<lparr>speed_kmh = Some (72 / 5), heading = Some 0, default_heading = False\<rparr>],
     \<lparr>cfg = \<lparr>alpha_min = None, alpha_max = None, speed_ref = None,
         heading_sat_coords_jitter_frames = Some 2, heading_sat_coords_jitter_radius = None,
         speed_ema_alpha = None, heading_min_speed_for_update = None,
         heading_max_jump = None\<rparr>,
      speed_state = Some (72 / 5), heading_vec_state = Some (1, 0),
      velocity_vec_state = Some (1, 0), h_alpha_min = 0.05, h_alpha_max = 0.6,
      h_speed_ref = 5, pos_history = [(0, 0), (10, 0)], jitter_maxlen = 2,
      jitter_hist = [(0, 0), (10, 0)], cosine_reject_counter = 0,
      max_physics_speed = 200\<rparr>)"
    by (simp add: update_eval_defs heading_eval_defs)
next
  let ?s = "\<lparr>cfg = \<lparr>alpha_min = None, alpha_max = None, speed_ref = None,
           heading_sat_coords_jitter_frames = Some 2, heading_sat_coords_jitter_radius = None,
           speed_ema_alpha = None, heading_min_speed_for_update = None,
           heading_max_jump = None\<rparr>,
         speed_state = Some (72 / 5), heading_vec_state = Some (1, 0),
         velocity_vec_state = Some (1, 0), h_alpha_min = 0.05, h_alpha_max = 0.6,
         h_speed_ref = 5, pos_history = [(0, 0), (10, 0)], jitter_maxlen = 2,
         jitter_hist = [(0, 0), (10, 0)], cosine_reject_counter = 0,
         max_physics_speed = 200\<rparr>"
  let ?obs = "[((101 / 10, 0), 1, 1, None), ((10, 0), 1, 1, None)] :: observation list"
  let ?f = "\<lambda>pts :: vec list. (1, 0) :: vec"
  have jr: "jittering_run ?f ?s ?obs"
    by (simp add: jitter_detected_def update_eval_defs)
  have hv: "heading_vec_state ?s = Some (1, 0)"
    by simp
  from jitter_freeze [OF hv jr] obtain rs self' where
    run: "run_updates ?f ?s ?obs = Some (rs, self')"
    and len: "length rs = 2"
    and st: "heading_vec_state self' = Some (1, 0)"
    and all: "\<forall>r \<in> set rs. heading r = Some (vec_to_deg (1, 0)) \<and> \<not> default_heading r"
    by auto
  obtain r1 r2 where rs: "rs = [r1, r2]"
    using len by (cases rs; cases "tl rs") auto
  have maps: "map heading rs = [Some (vec_to_deg (1, 0)), Some (vec_to_deg (1, 0))]"
      "map default_heading rs = [False, False]"
    using all by (simp_all add: rs)
  show "\<exists>rs self'. run_updates ?f ?s ?obs = Some (rs, self') \<and>
      map heading rs = [Some (vec_to_deg (1, 0)), Some (vec_to_deg (1, 0))] \<and>
      map default_heading rs = [False, False] \<and>
      heading_vec_state self' = Some (1, 0)"
    by (rule exI [of _ rs], rule exI [of _ self']) (simp only: run maps st simp_thms)
qed

subsection \<open>Heading jump clamp\<close>








subsection \<open>When the heading step returns\<close>



lemma unit_cos_sin: "linalg_norm (cos t, sin t) = 1"
  by (simp add: linalg_norm_def power2_eq_square [symmetric])

lemma normalized_unit:
  assumes "normalized v = Some u"
  shows "linalg_norm u = 1"
proof -
  define n where "n = linalg_norm v"
  have n: "n \<noteq> 0" and u: "u = (fst v / n, snd v / n)"
    using assms by (auto simp: normalized_def n_def split: if_splits)
  have npos: "0 < n"
    using n linalg_norm_nonneg [of v] by (simp add: n_def)
  have s: "fst v * fst v + snd v * snd v = n * n"
    by (simp add: n_def linalg_norm_def)
  have "fst v / n * (fst v / n) + snd v / n * (snd v / n) =
      (fst v * fst v + snd v * snd v) / (n * n)"
    by (simp add: add_divide_distrib)
  also have "\<dots> = 1"
    unfolding s using n by simp
  finally show ?thesis
    by (simp add: u linalg_norm_def)
qed









lemma smooth_heading_unit:
  assumes "smooth_heading self raw_deg speed = Some (deg, self')"
  shows "unit_vectors self'"
proof -
  have curr: "linalg_norm (cos (radians raw_deg), sin (radians raw_deg)) = 1"
    by (rule unit_cos_sin)
  from assms show ?thesis
    unfolding smooth_heading_def Let_def
    by (auto split: Option.bind_splits option.splits
        simp: unit_vectors_def unit_cos_sin normalized_unit)
qed

lemma heading_decision_unit:
  assumes "unit_vectors self"
    and "heading_decision self raw_speed raw_heading is_jittering svg = Some (out, self')"
  shows "unit_vectors self'"
proof (cases "raw_speed > dict_get (heading_min_speed_for_update (cfg self)) 0.1 \<and> \<not> is_jittering \<and> raw_heading \<noteq> None")
  case True
  then obtain deg where "smooth_heading self (the raw_heading) raw_speed = Some (deg, self')"
    using assms(2) by (auto simp: heading_decision_def Let_def split: Option.bind_splits prod.splits)
  then show ?thesis
    by (rule smooth_heading_unit)
next
  case False
  then have "self' = self"
    using assms(2) by (auto simp: heading_decision_def Let_def split: option.splits)
  then show ?thesis
    using assms(1) by simp
qed

lemma update_unit:
  assumes inv: "unit_vectors self"
    and upd: "update fitLine self pos dt ppm svg = Some (r, self')"
  shows "unit_vectors self'"
  using physics_gate_cases [OF upd]
proof
  assume "physics_gate self pos dt ppm = Some True"
  from update_rejected [OF this, of fitLine svg] upd inv show ?thesis
    by simp
next
  assume "physics_gate self pos dt ppm = Some False"
  from update_accepted [OF this upd] obtain raw_speed raw_heading out where
    dec: "heading_decision
      ((push_position self pos)\<lparr>speed_state := Some (smooth_speed (push_position self pos) raw_speed)\<rparr>)
      raw_speed raw_heading (check_jitter (push_position self pos) ppm) svg = Some (out, self')"
    by blast
  have "unit_vectors
      ((push_position self pos)\<lparr>speed_state := Some (smooth_speed (push_position self pos) raw_speed)\<rparr>)"
    using inv by (simp add: unit_vectors_def push_position_def)
  then show ?thesis
    using dec by (rule heading_decision_unit)
qed

lemma run_updates_unit:
  assumes "unit_vectors self" and "run_updates fitLine self obs = Some (rs, self')"
  shows "unit_vectors self'"
  using assms
proof (induction obs arbitrary: self rs)
  case Nil
  then show ?case by simp
next
  case (Cons ob obs)
  obtain pos dt ppm svg where ob: "ob = (pos, dt, ppm, svg)"
    by (metis prod.exhaust)
  from Cons.prems(2) obtain r s1 rs1 where
    u: "update fitLine self pos dt ppm svg = Some (r, s1)"
    and rest: "run_updates fitLine s1 obs = Some (rs1, self')"
    by (auto simp: ob split: option.splits prod.splits)
  from Cons.IH [OF update_unit [OF Cons.prems(1) u] rest] show ?case .
qed

lemma unit_vectors_init: "unit_vectors (TrackSmoother_init c)"
  by (simp add: unit_vectors_def TrackSmoother_init_def)







end
